theory Spec2Isabelle
  imports Main "HOL-Library.AList"
begin

section \<open>Python values and the host element\<close>

text \<open>
  The module \<^verbatim>\<open>pyweb/ui/elements.py\<close> wraps native document elements. A value that
  reaches a constructor is \<^verbatim>\<open>None\<close>, a primitive, a list, a dict with string keys, or
  an element wrapper. A wrapper holds no state of its own: it is its native element.
\<close>

datatype pyval =
    PNone
  | PBool bool
  | PInt int
  | PStr string
  | PList "pyval list"
  | PDict "(string \<times> pyval) list"
  | PElement element
and element =
  Element (el_tag: string)
          (el_attributes: "(string \<times> pyval) list")
          (el_style: "(string \<times> pyval) list")
          (el_children: "pyval list")
          (el_html: "pyval option")

text \<open>
  What a construction can raise: \<^verbatim>\<open>AttributeError\<close> from Python, and the host's refusal
  to create an element (the spec's HostCreationFailure).
\<close>

datatype error = AttributeError | HostCreationFailure

text \<open>Python truth value testing, as \<^verbatim>\<open>if style:\<close> applies it.\<close>

fun truthy :: "pyval \<Rightarrow> bool" where
  "truthy PNone = False"
| "truthy (PBool b) = b"
| "truthy (PInt i) = (i \<noteq> 0)"
| "truthy (PStr s) = (s \<noteq> [])"
| "truthy (PList xs) = (xs \<noteq> [])"
| "truthy (PDict kvs) = (kvs \<noteq> [])"
| "truthy (PElement e) = True"


subsection \<open>The host capability surface\<close>

text \<open>
  Modelled from the spec: the host document and \<^verbatim>\<open>pydom.Element\<close> are not part of the
  module. The spec gives the capability surface \<^verbatim>\<open>createElement(tag)\<close>,
  \<^verbatim>\<open>getAttribute/setAttribute\<close>, \<^verbatim>\<open>element.style[key] = value\<close>,
  \<^verbatim>\<open>element.append(child)\<close> and \<^verbatim>\<open>element.html = string\<close>. A fresh element has no
  attribute, no inline style, no child and no markup assigned. The style and attribute maps
  are association lists with dict semantics (an existing key keeps its place, a new key goes
  last). \<open>el_children\<close> records the arguments of \<^verbatim>\<open>append\<close> in call order, and
  \<open>el_html\<close> the value last handed to the markup setter, which the host stringifies.
  The host's refusal of a malformed tag string is left out: every class of the module fixes
  a well-formed tag.
\<close>

definition createElement :: "string \<Rightarrow> element" where
  "createElement t = Element t [] [] [] None"

fun style_setitem :: "string \<Rightarrow> pyval \<Rightarrow> element \<Rightarrow> element" where
  "style_setitem k v (Element t a s c h) = Element t a (AList.update k v s) c h"

fun style_getitem :: "string \<Rightarrow> element \<Rightarrow> pyval option" where
  "style_getitem k e = map_of (el_style e) k"

fun append_child :: "pyval \<Rightarrow> element \<Rightarrow> element" where
  "append_child child (Element t a s c h) = Element t a s (c @ [child]) h"

fun html_set :: "pyval \<Rightarrow> element \<Rightarrow> element" where
  "html_set v (Element t a s c h) = Element t a s c (Some v)"

fun setAttribute :: "string \<Rightarrow> pyval \<Rightarrow> element \<Rightarrow> element" where
  "setAttribute n v (Element t a s c h) = Element t (AList.update n v a) s c h"

fun getAttribute :: "string \<Rightarrow> element \<Rightarrow> pyval" where
  "getAttribute n e = (case map_of (el_attributes e) n of None \<Rightarrow> PNone | Some v \<Rightarrow> v)"

text \<open>
  Modelled from the spec: \<^verbatim>\<open>JSProperty\<close> and \<^verbatim>\<open>js_property\<close> come from the package
  \<^verbatim>\<open>pyweb\<close>, outside the module. The spec's contract: the getter of a property declared
  with backing attribute \<open>b\<close> returns the native attribute \<open>b\<close>, the setter assigns it; no
  validation of the value.
\<close>

definition JSProperty_get :: "string \<Rightarrow> element \<Rightarrow> pyval" where
  "JSProperty_get b e = getAttribute b e"

definition JSProperty_set :: "string \<Rightarrow> pyval \<Rightarrow> element \<Rightarrow> element" where
  "JSProperty_set b v e = setAttribute b v e"

section \<open>Classes and property registration\<close>

text \<open>
  A class dictionary (\<^verbatim>\<open>cls.__dict__\<close>) in insertion order. An entry is a property
  descriptor with its backing attribute name (\<^verbatim>\<open>js_property(name)\<close>), a string constant
  of the class body (\<^verbatim>\<open>tag = "a"\<close>), or a function of the class body
  (\<^verbatim>\<open>def __init__\<close>). The entries Python adds on its own (\<^verbatim>\<open>__module__\<close>,
  \<^verbatim>\<open>__doc__\<close>) are no descriptors and no keyword reaches them; they are left out.
\<close>

datatype class_attr = JSProperty string | StrConst string | Function

type_synonym class_dict = "(string \<times> class_attr) list"

definition GLOBAL_ATTRIBUTES :: "string list" where
  "GLOBAL_ATTRIBUTES =
    [''accesskey'', ''autocapitalize'', ''autofocus'', ''draggable'', ''enterkeyhint'',
     ''hidden'', ''id'', ''lang'', ''nonce'', ''part'', ''popover'', ''slot'', ''spellcheck'',
     ''tabindex'', ''title'', ''translate'', ''virtualkeyboardpolicy'', ''className'']"

definition js_property :: "string \<Rightarrow> class_attr" where
  "js_property n = JSProperty n"

text \<open>\<^verbatim>\<open>setattr(cls, attr, value)\<close> on a class: a dict store.\<close>

definition setattr_cls :: "string \<Rightarrow> class_attr \<Rightarrow> class_dict \<Rightarrow> class_dict" where
  "setattr_cls n v cd = AList.update n v cd"

text \<open>
  \<^verbatim>\<open>_add_js_properties(cls, *attrs)\<close>: first the global attributes, then the specific
  ones. The docstring it writes on \<^verbatim>\<open>cls.__init__\<close> lands on the function object, not
  in the class dictionary, and is not modelled.
\<close>

definition add_js_properties :: "class_dict \<Rightarrow> string list \<Rightarrow> class_dict" where
  "add_js_properties cd attrs =
     fold (\<lambda>attr d. setattr_cls attr (js_property attr) d) attrs
       (fold (\<lambda>attr d. setattr_cls attr (js_property attr) d) GLOBAL_ATTRIBUTES cd)"

text \<open>
  \<^verbatim>\<open>self.tag\<close>: the class's own \<^verbatim>\<open>tag\<close>, else the one inherited. The classes
  modelled here derive directly from \<^verbatim>\<open>ElementBase\<close> or \<^verbatim>\<open>TextElementBase\<close>, as
  every class of the module does, so the only inherited tag is that of \<^verbatim>\<open>ElementBase\<close>
  (\<^verbatim>\<open>"div"\<close>); a subclass of a tag class, which would inherit its parent's tag, is
  outside the model. Every class of the module binds \<^verbatim>\<open>tag\<close> to a string in its own
  body. Were it bound to a property descriptor, the read would go through the descriptor
  before the wrapper has its native element; were it bound to a function, the host would
  be asked to create an element from a method.
\<close>

definition class_tag :: "class_dict \<Rightarrow> error + string" where
  "class_tag cd =
     (case map_of cd ''tag'' of
        None \<Rightarrow> Inr ''div''
      | Some (StrConst t) \<Rightarrow> Inr t
      | Some (JSProperty b) \<Rightarrow> Inl AttributeError
      | Some Function \<Rightarrow> Inl HostCreationFailure)"

section \<open>ElementBase and TextElementBase\<close>

type_synonym kwargs = "string \<rightharpoonup> pyval"

text \<open>
  \<^verbatim>\<open>ElementBase._init_properties(self, **kwargs)\<close>: one pass over the items of the
  concrete class's own dictionary; an entry that is a \<^verbatim>\<open>JSProperty\<close> and whose name is a
  key of \<^verbatim>\<open>kwargs\<close> is assigned through \<^verbatim>\<open>setattr\<close>, that is through the descriptor.
\<close>

fun init_properties :: "class_dict \<Rightarrow> kwargs \<Rightarrow> element \<Rightarrow> element" where
  "init_properties [] kw e = e"
| "init_properties ((attr_name, attr) # rest) kw e =
     (case attr of
        JSProperty b \<Rightarrow>
          (case kw attr_name of
             Some v \<Rightarrow> init_properties rest kw (JSProperty_set b v e)
           | None \<Rightarrow> init_properties rest kw e)
      | _ \<Rightarrow> init_properties rest kw e)"

text \<open>
  The style loop of \<^verbatim>\<open>ElementBase.__init__\<close>: skipped when \<^verbatim>\<open>style\<close> is falsy
  (\<^verbatim>\<open>None\<close>, an empty dict), one assignment per item of a dict in iteration order, and
  an \<^verbatim>\<open>AttributeError\<close> on a truthy value without \<^verbatim>\<open>items()\<close>.
\<close>

definition set_styles :: "pyval \<Rightarrow> element \<Rightarrow> error + element" where
  "set_styles st e =
     (if truthy st then
        (case st of
           PDict items \<Rightarrow> Inr (fold (\<lambda>(key, v) el. style_setitem key v el) items e)
         | _ \<Rightarrow> Inl AttributeError)
      else Inr e)"

definition ElementBase_init :: "class_dict \<Rightarrow> pyval \<Rightarrow> kwargs \<Rightarrow> error + element" where
  "ElementBase_init cd st kw =
     (case class_tag cd of
        Inl err \<Rightarrow> Inl err
      | Inr t \<Rightarrow>
          (case set_styles st (createElement t) of
             Inl err \<Rightarrow> Inl err
           | Inr e \<Rightarrow> Inr (init_properties cd kw e)))"

text \<open>
  \<^verbatim>\<open>TextElementBase.__init__(self, content=None, style=None, **kwargs)\<close>: the base
  construction, then the four-way dispatch on \<^verbatim>\<open>content\<close>.
\<close>

fun isinstance_Element :: "pyval \<Rightarrow> bool" where
  "isinstance_Element (PElement c) = True"
| "isinstance_Element _ = False"

fun isinstance_list :: "pyval \<Rightarrow> bool" where
  "isinstance_list (PList items) = True"
| "isinstance_list _ = False"

fun list_items :: "pyval \<Rightarrow> pyval list" where
  "list_items (PList items) = items"
| "list_items _ = []"

definition set_content :: "pyval \<Rightarrow> element \<Rightarrow> element" where
  "set_content content e =
     (if isinstance_Element content then append_child content e
      else if isinstance_list content then
        fold (\<lambda>item el. append_child item el) (list_items content) e
      else if content = PNone then e
      else html_set content e)"

definition TextElementBase_init ::
  "class_dict \<Rightarrow> pyval \<Rightarrow> pyval \<Rightarrow> kwargs \<Rightarrow> error + element" where
  "TextElementBase_init cd content st kw =
     (case ElementBase_init cd st kw of
        Inl err \<Rightarrow> Inl err
      | Inr e \<Rightarrow> Inr (set_content content e))"


section \<open>The tag classes\<close>

text \<open>
  Each tag class is a class statement (its base and its body) followed by one call of
  \<^verbatim>\<open>_add_js_properties\<close> with the tag's specific attributes. The classes \<^verbatim>\<open>a\<close>,
  \<^verbatim>\<open>div\<close>, \<^verbatim>\<open>p\<close> and \<^verbatim>\<open>input_\<close> are \<open>a_cls\<close>, \<open>div_cls\<close>, \<open>p_cls\<close> and
  \<open>input_cls\<close> here.
\<close>

datatype base_class = ElementBase | TextElementBase

record tag_class =
  base :: base_class
  body :: class_dict
  specific :: "string list"

definition class_dict_of :: "tag_class \<Rightarrow> class_dict" where
  "class_dict_of T = add_js_properties (body T) (specific T)"

definition a_cls :: tag_class where
  "a_cls = \<lparr>base = TextElementBase, body = [(''tag'', StrConst ''a'')],
     specific = [''download'', ''href'', ''referrerpolicy'', ''rel'', ''target'', ''type'']\<rparr>"

definition br :: tag_class where
  "br = \<lparr>base = ElementBase, body = [(''tag'', StrConst ''br'')], specific = []\<rparr>"

definition button :: tag_class where
  "button = \<lparr>base = TextElementBase, body = [(''tag'', StrConst ''button'')],
     specific = [''autofocus'', ''disabled'', ''form'', ''formaction'', ''formenctype'',
       ''formmethod'', ''formnovalidate'', ''formtarget'', ''name'', ''type'', ''value'']\<rparr>"

definition code :: tag_class where
  "code = \<lparr>base = TextElementBase, body = [(''tag'', StrConst ''code'')], specific = []\<rparr>"

definition div_cls :: tag_class where
  "div_cls = \<lparr>base = TextElementBase, body = [(''tag'', StrConst ''div'')], specific = []\<rparr>"

definition img :: tag_class where
  "img = \<lparr>base = ElementBase, body = [(''tag'', StrConst ''img'')],
     specific = [''alt'', ''crossorigin'', ''decoding'', ''fetchpriority'', ''height'',
       ''ismap'', ''loading'', ''referrerpolicy'', ''sizes'', ''src'', ''width'']\<rparr>"

definition input_cls :: tag_class where
  "input_cls = \<lparr>base = ElementBase, body = [(''tag'', StrConst ''input'')],
     specific = [''accept'', ''alt'', ''autofocus'', ''capture'', ''checked'', ''dirname'',
       ''disabled'', ''form'', ''formaction'', ''formenctype'', ''formmethod'',
       ''formnovalidate'', ''formtarget'', ''height'', ''list'', ''max'', ''maxlength'',
       ''min'', ''minlength'', ''multiple'', ''name'', ''pattern'', ''placeholder'',
       ''popovertarget'', ''popovertargetaction'', ''readonly'', ''required'', ''size'',
       ''src'', ''step'', ''type'', ''value'', ''width'']\<rparr>"

definition h1 :: tag_class where
  "h1 = \<lparr>base = TextElementBase, body = [(''tag'', StrConst ''h1'')], specific = []\<rparr>"

definition h2 :: tag_class where
  "h2 = \<lparr>base = TextElementBase, body = [(''tag'', StrConst ''h2'')], specific = []\<rparr>"

definition h3 :: tag_class where
  "h3 = \<lparr>base = TextElementBase, body = [(''tag'', StrConst ''h3'')], specific = []\<rparr>"

definition h4 :: tag_class where
  "h4 = \<lparr>base = TextElementBase, body = [(''tag'', StrConst ''h4'')], specific = []\<rparr>"

definition h5 :: tag_class where
  "h5 = \<lparr>base = TextElementBase, body = [(''tag'', StrConst ''h5'')], specific = []\<rparr>"

definition h6 :: tag_class where
  "h6 = \<lparr>base = TextElementBase, body = [(''tag'', StrConst ''h6'')], specific = []\<rparr>"

definition link :: tag_class where
  "link = \<lparr>base = TextElementBase, body = [(''tag'', StrConst ''link'')],
     specific = [''as'', ''crossorigin'', ''disabled'', ''fetchpriority'', ''href'',
       ''imagesizes'', ''imagesrcset'', ''integrity'', ''media'', ''rel'',
       ''referrerpolicy'', ''sizes'', ''title'', ''type'']\<rparr>"

definition p_cls :: tag_class where
  "p_cls = \<lparr>base = TextElementBase, body = [(''tag'', StrConst ''p'')], specific = []\<rparr>"

definition pre :: tag_class where
  "pre = \<lparr>base = TextElementBase, body = [(''tag'', StrConst ''pre'')], specific = []\<rparr>"

definition style :: tag_class where
  "style = \<lparr>base = TextElementBase, body = [(''tag'', StrConst ''style'')],
     specific = [''blocking'', ''media'', ''nonce'', ''title'']\<rparr>"

text \<open>The body of \<^verbatim>\<open>script\<close> declares \<^verbatim>\<open>async_ = js_property("async")\<close> by hand.\<close>

definition script :: tag_class where
  "script = \<lparr>base = TextElementBase,
     body = [(''tag'', StrConst ''script''), (''async_'', js_property ''async'')],
     specific = [''blocking'', ''crossorigin'', ''defer'', ''fetchpriority'', ''integrity'',
       ''nomodule'', ''nonce'', ''referrerpolicy'', ''src'', ''type'']\<rparr>"

definition small :: tag_class where
  "small = \<lparr>base = TextElementBase, body = [(''tag'', StrConst ''small'')], specific = []\<rparr>"

definition strong :: tag_class where
  "strong = \<lparr>base = TextElementBase, body = [(''tag'', StrConst ''strong'')], specific = []\<rparr>"

definition tag_classes :: "tag_class list" where
  "tag_classes = [a_cls, br, button, code, div_cls, img, input_cls, h1, h2, h3, h4, h5, h6,
     link, p_cls, pre, style, script, small, strong]"

section \<open>The composite element grid\<close>

text \<open>
  \<^verbatim>\<open>grid\<close> subclasses \<^verbatim>\<open>TextElementBase\<close> with its own \<^verbatim>\<open>__init__\<close>; the
  registration helper is never called on it.
\<close>

definition grid :: class_dict where
  "grid = [(''tag'', StrConst ''div''), (''__init__'', Function)]"

text \<open>
  \<^verbatim>\<open>super().__init__(content, **kwargs)\<close> binds a \<^verbatim>\<open>style\<close> key of \<^verbatim>\<open>kwargs\<close>
  to the parameter \<^verbatim>\<open>style=None\<close> of \<^verbatim>\<open>TextElementBase.__init__\<close>; the other keys
  stay in its \<^verbatim>\<open>**kwargs\<close>.
\<close>

definition style_arg :: "kwargs \<Rightarrow> pyval" where
  "style_arg kw = (case kw ''style'' of None \<Rightarrow> PNone | Some st \<Rightarrow> st)"

definition rest_kwargs :: "kwargs \<Rightarrow> kwargs" where
  "rest_kwargs kw = kw(''style'' := None)"

definition grid_init :: "pyval \<Rightarrow> pyval \<Rightarrow> pyval \<Rightarrow> kwargs \<Rightarrow> error + element" where
  "grid_init layout content gap kw =
     (case TextElementBase_init grid content (style_arg kw) (rest_kwargs kw) of
        Inl err \<Rightarrow> Inl err
      | Inr e \<Rightarrow>
          (let e1 = style_setitem ''display'' (PStr ''grid'') e;
               e2 = style_setitem ''grid-template-columns'' layout e1
           in if gap \<noteq> PNone then Inr (style_setitem ''gap'' gap e2) else Inr e2))"


section \<open>Reading a class and an instance\<close>

text \<open>The declared properties of a class: the names of its dictionary bound to a
  \<^verbatim>\<open>JSProperty\<close>, in dictionary order, and the backing attribute of each.\<close>

fun is_JSProperty :: "class_attr \<Rightarrow> bool" where
  "is_JSProperty (JSProperty b) = True"
| "is_JSProperty _ = False"

definition declared :: "class_dict \<Rightarrow> string list" where
  "declared cd = map fst (filter (\<lambda>(n, attr). is_JSProperty attr) cd)"

definition backing :: "class_dict \<Rightarrow> string \<Rightarrow> string option" where
  "backing cd n = (case map_of cd n of Some (JSProperty b) \<Rightarrow> Some b | _ \<Rightarrow> None)"

fun backings :: "class_dict \<Rightarrow> string list" where
  "backings [] = []"
| "backings ((n, JSProperty b) # rest) = b # backings rest"
| "backings (_ # rest) = backings rest"

text \<open>
  Attribute access on an instance, for a declared property: \<^verbatim>\<open>obj.name\<close> and
  \<^verbatim>\<open>obj.name = v\<close> go through the descriptor found in the class. \<open>None\<close>: the class
  declares no property of that name.
\<close>

definition get_property :: "class_dict \<Rightarrow> string \<Rightarrow> element \<Rightarrow> pyval option" where
  "get_property cd n e = map_option (\<lambda>b. JSProperty_get b e) (backing cd n)"

definition set_property :: "class_dict \<Rightarrow> string \<Rightarrow> pyval \<Rightarrow> element \<Rightarrow> element option" where
  "set_property cd n v e = map_option (\<lambda>b. JSProperty_set b v e) (backing cd n)"

text \<open>
  The assignments the constructor is specified to make: for every declared property, in
  dictionary order, the pair of its backing attribute and the value of the same-named
  keyword, when there is one.
\<close>

fun spec_assignments :: "class_dict \<Rightarrow> kwargs \<Rightarrow> (string \<times> pyval) list" where
  "spec_assignments [] kw = []"
| "spec_assignments ((n, JSProperty b) # rest) kw =
     (case kw n of
        Some v \<Rightarrow> (b, v) # spec_assignments rest kw
      | None \<Rightarrow> spec_assignments rest kw)"
| "spec_assignments (_ # rest) kw = spec_assignments rest kw"

text \<open>The reserved words of Python 3 (\<^verbatim>\<open>keyword.kwlist\<close>): no identifier, keyword
  argument name or attribute reference can be spelled as one of them.\<close>

definition python_keywords :: "string list" where
  "python_keywords =
    [''False'', ''None'', ''True'', ''and'', ''as'', ''assert'', ''async'', ''await'',
     ''break'', ''class'', ''continue'', ''def'', ''del'', ''elif'', ''else'', ''except'',
     ''finally'', ''for'', ''from'', ''global'', ''if'', ''import'', ''in'', ''is'',
     ''lambda'', ''nonlocal'', ''not'', ''or'', ''pass'', ''raise'', ''return'', ''try'',
     ''while'', ''with'', ''yield'']"


section \<open>Lemmas on the host operations\<close>

lemma style_setitem_sel [simp]:
  "el_tag (style_setitem k v e) = el_tag e"
  "el_attributes (style_setitem k v e) = el_attributes e"
  "el_style (style_setitem k v e) = AList.update k v (el_style e)"
  "el_children (style_setitem k v e) = el_children e"
  "el_html (style_setitem k v e) = el_html e"
  by (cases e; simp)+

lemma append_child_sel [simp]:
  "el_tag (append_child x e) = el_tag e"
  "el_attributes (append_child x e) = el_attributes e"
  "el_style (append_child x e) = el_style e"
  "el_children (append_child x e) = el_children e @ [x]"
  "el_html (append_child x e) = el_html e"
  by (cases e; simp)+

lemma html_set_sel [simp]:
  "el_tag (html_set x e) = el_tag e"
  "el_attributes (html_set x e) = el_attributes e"
  "el_style (html_set x e) = el_style e"
  "el_children (html_set x e) = el_children e"
  "el_html (html_set x e) = Some x"
  by (cases e; simp)+

lemma setAttribute_sel [simp]:
  "el_tag (setAttribute n v e) = el_tag e"
  "el_attributes (setAttribute n v e) = AList.update n v (el_attributes e)"
  "el_style (setAttribute n v e) = el_style e"
  "el_children (setAttribute n v e) = el_children e"
  "el_html (setAttribute n v e) = el_html e"
  by (cases e; simp)+

lemma createElement_sel [simp]:
  "el_tag (createElement t) = t"
  "el_attributes (createElement t) = []"
  "el_style (createElement t) = []"
  "el_children (createElement t) = []"
  "el_html (createElement t) = None"
  by (simp_all add: createElement_def)

lemma init_properties_sel [simp]:
  "el_tag (init_properties cd kw e) = el_tag e"
  "el_style (init_properties cd kw e) = el_style e"
  "el_children (init_properties cd kw e) = el_children e"
  "el_html (init_properties cd kw e) = el_html e"
  by (induction cd kw e rule: init_properties.induct;
      simp add: JSProperty_set_def split: class_attr.splits option.splits)+

lemma fold_style_sel [simp]:
  "el_tag (fold (\<lambda>(key, v) el. style_setitem key v el) items e) = el_tag e"
  "el_attributes (fold (\<lambda>(key, v) el. style_setitem key v el) items e) = el_attributes e"
  "el_children (fold (\<lambda>(key, v) el. style_setitem key v el) items e) = el_children e"
  "el_html (fold (\<lambda>(key, v) el. style_setitem key v el) items e) = el_html e"
  by (induction items arbitrary: e; simp split: prod.splits)+

lemma fold_style_style:
  "el_style (fold (\<lambda>(key, v) el. style_setitem key v el) items e)
     = fold (\<lambda>(key, v) s. AList.update key v s) items (el_style e)"
  by (induction items arbitrary: e) (simp_all split: prod.splits)

lemma fold_update_distinct:
  "distinct (map fst (s @ items)) \<Longrightarrow>
     fold (\<lambda>(key, v) s. AList.update key v s) items s = s @ items"
proof (induction items arbitrary: s)
  case Nil
  then show ?case by simp
next
  case (Cons kv items)
  obtain k v where kv: "kv = (k, v)" by (cases kv)
  from Cons.prems kv have "k \<notin> fst ` set s" by auto
  then have u: "AList.update k v s = s @ [(k, v)]"
    by (induction s) auto
  from Cons.prems kv have "distinct (map fst ((s @ [(k, v)]) @ items))" by simp
  from Cons.IH [OF this] show ?case using kv u by simp
qed

lemma map_of_fold_update:
  "map_of (fold (\<lambda>(key, v) s. AList.update key v s) items s) k
     = (case map_of (rev items) k of None \<Rightarrow> map_of s k | Some v \<Rightarrow> Some v)"
  by (induction items arbitrary: s)
     (auto simp: update_conv' split: prod.splits option.splits)

lemma fold_append_sel [simp]:
  "el_tag (fold (\<lambda>item el. append_child item el) items e) = el_tag e"
  "el_attributes (fold (\<lambda>item el. append_child item el) items e) = el_attributes e"
  "el_style (fold (\<lambda>item el. append_child item el) items e) = el_style e"
  "el_children (fold (\<lambda>item el. append_child item el) items e) = el_children e @ items"
  "el_html (fold (\<lambda>item el. append_child item el) items e) = el_html e"
  by (induction items arbitrary: e; simp)+

section \<open>Lemmas on registration\<close>

lemma map_of_fold_setattr:
  "map_of (fold (\<lambda>attr d. setattr_cls attr (js_property attr) d) attrs cd) n
     = (if n \<in> set attrs then Some (JSProperty n) else map_of cd n)"
  by (induction attrs arbitrary: cd)
     (auto simp: setattr_cls_def js_property_def update_conv')

lemma map_of_add_js_properties:
  "map_of (add_js_properties cd attrs) n
     = (if n \<in> set GLOBAL_ATTRIBUTES \<union> set attrs then Some (JSProperty n) else map_of cd n)"
  by (simp add: add_js_properties_def map_of_fold_setattr)

lemma distinct_fold_setattr:
  "distinct (map fst cd) \<Longrightarrow>
     distinct (map fst (fold (\<lambda>attr d. setattr_cls attr (js_property attr) d) attrs cd))"
  by (induction attrs arbitrary: cd) (simp_all add: setattr_cls_def distinct_update)

lemma distinct_add_js_properties:
  "distinct (map fst cd) \<Longrightarrow> distinct (map fst (add_js_properties cd attrs))"
  by (simp add: add_js_properties_def distinct_fold_setattr)

lemma set_declared:
  "distinct (map fst cd) \<Longrightarrow> set (declared cd) = {n. \<exists>b. map_of cd n = Some (JSProperty b)}"
proof (induction cd)
  case Nil
  then show ?case by (simp add: declared_def)
next
  case (Cons x cd)
  obtain n a where x: "x = (n, a)" by (cases x)
  from Cons.prems x have fresh: "n \<notin> fst ` set cd" and d: "distinct (map fst cd)" by auto
  from fresh have none: "map_of cd n = None" by (simp add: map_of_eq_None_iff)
  have ih: "set (declared cd) = {n. \<exists>b. map_of cd n = Some (JSProperty b)}"
    using Cons.IH d by simp
  show ?case
  proof (cases a)
    case (JSProperty b)
    with x ih none show ?thesis by (auto simp: declared_def)
  next
    case (StrConst t)
    with x ih none show ?thesis by (auto simp: declared_def)
  next
    case Function
    with x ih none show ?thesis by (auto simp: declared_def)
  qed
qed

lemma backing_add_js_properties:
  "backing (add_js_properties cd attrs) n
     = (if n \<in> set GLOBAL_ATTRIBUTES \<union> set attrs then Some n else backing cd n)"
  by (simp add: backing_def map_of_add_js_properties)

lemma fold_setattr_idem:
  "\<forall>n \<in> set attrs. map_of cd n = Some (JSProperty n) \<Longrightarrow>
     fold (\<lambda>attr d. setattr_cls attr (js_property attr) d) attrs cd = cd"
  by (induction attrs) (simp_all add: setattr_cls_def js_property_def update_triv)

lemma add_js_properties_idem:
  "add_js_properties (add_js_properties cd attrs) attrs = add_js_properties cd attrs"
proof -
  let ?d = "add_js_properties cd attrs"
  have g: "fold (\<lambda>attr d. setattr_cls attr (js_property attr) d) GLOBAL_ATTRIBUTES ?d = ?d"
    by (rule fold_setattr_idem) (simp add: map_of_add_js_properties)
  have s: "fold (\<lambda>attr d. setattr_cls attr (js_property attr) d) attrs ?d = ?d"
    by (rule fold_setattr_idem) (simp add: map_of_add_js_properties)
  show ?thesis
    by (subst (1) add_js_properties_def) (simp only: g s)
qed

section \<open>Lemmas on property harvesting\<close>

lemma init_properties_attributes:
  "el_attributes (init_properties cd kw e)
     = fold (\<lambda>(b, v) al. AList.update b v al) (spec_assignments cd kw) (el_attributes e)"
  by (induction cd kw e rule: init_properties.induct)
     (simp_all add: JSProperty_set_def split: class_attr.splits option.splits)

lemma keys_spec_assignments:
  "set (map fst (spec_assignments cd kw)) \<subseteq> set (backings cd)"
  by (induction cd kw rule: spec_assignments.induct) (auto split: option.splits)

lemma distinct_spec_assignments:
  "distinct (backings cd) \<Longrightarrow> distinct (map fst (spec_assignments cd kw))"
proof (induction cd kw rule: spec_assignments.induct)
  case (2 n b rest kw)
  then show ?case
    using keys_spec_assignments [of rest kw] by (auto split: option.splits)
qed simp_all

lemma backings_mem: "(n, JSProperty b) \<in> set cd \<Longrightarrow> b \<in> set (backings cd)"
  by (induction cd rule: backings.induct) auto

lemma map_of_spec_assignments:
  "distinct (map fst cd) \<Longrightarrow> distinct (backings cd) \<Longrightarrow> map_of cd n = Some (JSProperty b)
     \<Longrightarrow> map_of (spec_assignments cd kw) b = kw n"
proof (induction cd)
  case Nil
  then show ?case by simp
next
  case (Cons x rest)
  obtain m a where x: "x = (m, a)" by (cases x)
  from Cons.prems x have d: "distinct (map fst rest)" and fresh: "m \<notin> fst ` set rest"
    by auto
  show ?case
  proof (cases "m = n")
    case True
    with Cons.prems x have a: "a = JSProperty b" by simp
    with Cons.prems x have "b \<notin> set (backings rest)" by simp
    with keys_spec_assignments [of rest kw] have "b \<notin> fst ` set (spec_assignments rest kw)"
      by auto
    then have "map_of (spec_assignments rest kw) b = None"
      by (simp add: map_of_eq_None_iff)
    with True a x show ?thesis by (simp split: option.splits)
  next
    case False
    with Cons.prems x have in_rest: "map_of rest n = Some (JSProperty b)" by simp
    then have "(n, JSProperty b) \<in> set rest" by (rule map_of_SomeD)
    then have mem: "b \<in> set (backings rest)" by (rule backings_mem)
    from Cons.prems x have d2: "distinct (backings rest)" by (cases a) simp_all
    from Cons.IH [OF d d2 in_rest] have ih: "map_of (spec_assignments rest kw) b = kw n" .
    show ?thesis
    proof (cases a)
      case (JSProperty c)
      with Cons.prems x mem have "c \<noteq> b" by auto
      with ih x JSProperty show ?thesis by (simp split: option.splits)
    next
      case (StrConst t)
      with ih x show ?thesis by simp
    next
      case Function
      with ih x show ?thesis by simp
    qed
  qed
qed

lemma init_properties_undeclared:
  "\<forall>b. (k, JSProperty b) \<notin> set cd \<Longrightarrow>
     init_properties cd (kw(k \<mapsto> v)) e = init_properties cd kw e"
  by (induction cd kw e rule: init_properties.induct)
     (auto split: class_attr.splits option.splits)

section \<open>Lemmas on construction\<close>

lemma ElementBase_init_fresh:
  "ElementBase_init cd st kw = Inr b \<Longrightarrow> el_children b = [] \<and> el_html b = None"
  by (auto simp: ElementBase_init_def set_styles_def
           split: sum.splits if_splits pyval.splits)

lemma set_content_sel [simp]:
  "el_tag (set_content c e) = el_tag e"
  "el_attributes (set_content c e) = el_attributes e"
  "el_style (set_content c e) = el_style e"
  by (simp_all add: set_content_def)

lemma div_dict:
  "class_dict_of div_cls =
     (''tag'', StrConst ''div'') # map (\<lambda>n. (n, JSProperty n)) GLOBAL_ATTRIBUTES"
  by (simp add: class_dict_of_def div_cls_def add_js_properties_def GLOBAL_ATTRIBUTES_def
        setattr_cls_def js_property_def)

lemma div_base_empty:
  "ElementBase_init (class_dict_of div_cls) PNone Map.empty = Inr (Element ''div'' [] [] [] None)"
  by (simp add: div_dict GLOBAL_ATTRIBUTES_def ElementBase_init_def class_tag_def
        set_styles_def createElement_def)

section \<open>Content normalisation\<close>

text \<open>
  Claim C1. After the base construction has produced an element \<open>b\<close>, the constructor of
  \<^verbatim>\<open>TextElementBase\<close> takes exactly one branch, tested in this order: an element wrapper
  is appended as the only child; else the items of a list are appended in list order; else
  \<^verbatim>\<open>None\<close> leaves the element as it is; else the value is handed to the markup setter
  and no child is appended. Tag, attributes and inline style are those of \<open>b\<close>.
\<close>

theorem TextElementBase_content_dispatch:
  assumes "ElementBase_init cd st kw = Inr b"
  shows "\<exists>e. TextElementBase_init cd content st kw = Inr e
           \<and> el_tag e = el_tag b \<and> el_attributes e = el_attributes b \<and> el_style e = el_style b
           \<and> (if isinstance_Element content then el_children e = [content] \<and> el_html e = None
              else if isinstance_list content then
                el_children e = list_items content \<and> el_html e = None
              else if content = PNone then el_children e = [] \<and> el_html e = None
              else el_children e = [] \<and> el_html e = Some content)"
proof -
  from assms have fresh: "el_children b = []" "el_html b = None"
    using ElementBase_init_fresh by blast+
  have run: "TextElementBase_init cd content st kw = Inr (set_content content b)"
    using assms by (simp add: TextElementBase_init_def)
  show ?thesis
    unfolding run using fresh by (simp add: set_content_def)
qed

text \<open>
  \<^verbatim>\<open>div([h1(), p()])\<close> has exactly these two children in list order, \<^verbatim>\<open>div(h1())\<close>
  exactly one, and \<^verbatim>\<open>div("hello")\<close> no child and the markup \<^verbatim>\<open>"hello"\<close>.
\<close>

theorem TextElementBase_content_dispatch_witness:
  "(\<exists>e. TextElementBase_init (class_dict_of div_cls)
          (PList [PElement (Element ''h1'' [] [] [] None), PElement (Element ''p'' [] [] [] None)])
          PNone Map.empty = Inr e
        \<and> el_children e =
            [PElement (Element ''h1'' [] [] [] None), PElement (Element ''p'' [] [] [] None)]
        \<and> el_html e = None)
   \<and> (\<exists>e. TextElementBase_init (class_dict_of div_cls)
          (PElement (Element ''h1'' [] [] [] None)) PNone Map.empty = Inr e
        \<and> el_children e = [PElement (Element ''h1'' [] [] [] None)] \<and> el_html e = None)
   \<and> (\<exists>e. TextElementBase_init (class_dict_of div_cls) (PStr ''hello'') PNone Map.empty = Inr e
        \<and> el_children e = [] \<and> el_html e = Some (PStr ''hello''))"
  using TextElementBase_content_dispatch [OF div_base_empty,
          of "PList [PElement (Element ''h1'' [] [] [] None), PElement (Element ''p'' [] [] [] None)]"]
        TextElementBase_content_dispatch [OF div_base_empty,
          of "PElement (Element ''h1'' [] [] [] None)"]
        TextElementBase_content_dispatch [OF div_base_empty, of "PStr ''hello''"]
  by simp blast

text \<open>
  Claim C10. Only \<^verbatim>\<open>None\<close> is absent content. The empty list takes the list branch:
  no child is appended and the markup is never set. Every other value that is no element,
  no list and not \<^verbatim>\<open>None\<close> takes the fallback branch and is assigned as markup; this
  includes the falsy primitives \<^verbatim>\<open>""\<close>, \<^verbatim>\<open>0\<close> and \<^verbatim>\<open>False\<close>.
\<close>

theorem TextElementBase_only_None_is_absent:
  assumes "ElementBase_init cd st kw = Inr b"
  shows "TextElementBase_init cd PNone st kw = Inr b
       \<and> isinstance_list (PList []) \<and> PList [] \<noteq> PNone
       \<and> (\<exists>e. TextElementBase_init cd (PList []) st kw = Inr e
              \<and> el_children e = [] \<and> el_html e = None)
       \<and> (\<not> isinstance_Element content \<and> \<not> isinstance_list content \<and> content \<noteq> PNone \<longrightarrow>
            (\<exists>e. TextElementBase_init cd content st kw = Inr e
               \<and> el_children e = [] \<and> el_html e = Some content))
       \<and> (\<forall>c \<in> {PStr '''', PInt 0, PBool False}. \<not> truthy c \<and>
            (\<exists>e. TextElementBase_init cd c st kw = Inr e
               \<and> el_children e = [] \<and> el_html e = Some c))"
proof -
  from assms have fresh: "el_children b = []" "el_html b = None"
    using ElementBase_init_fresh by blast+
  have run: "TextElementBase_init cd c st kw = Inr (set_content c b)" for c
    using assms by (simp add: TextElementBase_init_def)
  have none: "set_content PNone b = b" and nil: "set_content (PList []) b = b"
    by (simp_all add: set_content_def)
  have other: "el_children (set_content c b) = [] \<and> el_html (set_content c b) = Some c"
    if "\<not> isinstance_Element c" "\<not> isinstance_list c" "c \<noteq> PNone" for c
    using that fresh by (simp add: set_content_def)
  show ?thesis
    unfolding run using fresh none nil other by simp
qed

text \<open>On \<^verbatim>\<open>div\<close>: \<^verbatim>\<open>div(None)\<close>, \<^verbatim>\<open>div([])\<close>, \<^verbatim>\<open>div("")\<close>, \<^verbatim>\<open>div(0)\<close> and
  \<^verbatim>\<open>div(False)\<close>.\<close>

theorem TextElementBase_only_None_is_absent_witness:
  "TextElementBase_init (class_dict_of div_cls) PNone PNone Map.empty
     = Inr (Element ''div'' [] [] [] None)
   \<and> (\<exists>e. TextElementBase_init (class_dict_of div_cls) (PList []) PNone Map.empty = Inr e
          \<and> el_children e = [] \<and> el_html e = None)
   \<and> (\<exists>e. TextElementBase_init (class_dict_of div_cls) (PStr '''') PNone Map.empty = Inr e
          \<and> el_children e = [] \<and> el_html e = Some (PStr ''''))
   \<and> (\<exists>e. TextElementBase_init (class_dict_of div_cls) (PInt 0) PNone Map.empty = Inr e
          \<and> el_children e = [] \<and> el_html e = Some (PInt 0))
   \<and> (\<exists>e. TextElementBase_init (class_dict_of div_cls) (PBool False) PNone Map.empty = Inr e
          \<and> el_children e = [] \<and> el_html e = Some (PBool False))"
  using TextElementBase_only_None_is_absent [OF div_base_empty, of "PStr ''''"]
  by simp

lemma backing_undeclared: "k \<notin> set (declared cd) \<Longrightarrow> backing cd k = None"
proof -
  assume k: "k \<notin> set (declared cd)"
  have "map_of cd k \<noteq> Some (JSProperty b)" for b
  proof
    assume "map_of cd k = Some (JSProperty b)"
    then have "(k, JSProperty b) \<in> set cd" by (rule map_of_SomeD)
    then have "k \<in> set (declared cd)" by (force simp: declared_def)
    with k show False by simp
  qed
  then show ?thesis
    by (auto simp: backing_def split: option.splits class_attr.splits)
qed

lemma undeclared_no_entry: "k \<notin> set (declared cd) \<Longrightarrow> (k, JSProperty b) \<notin> set cd"
  by (force simp: declared_def)

section \<open>Unrecognised keyword arguments\<close>

text \<open>
  Claim C4. A keyword argument collected in \<^verbatim>\<open>**kwargs\<close> (any keyword but the named
  parameters \<^verbatim>\<open>content\<close> and \<^verbatim>\<open>style\<close>) whose name is not a declared property of the
  class is ignored by the constructors of \<^verbatim>\<open>ElementBase\<close> and \<^verbatim>\<open>TextElementBase\<close>:
  the construction returns what it returns without that keyword (an element where it
  returned an element, so the keyword raises nothing), no assignment is made for it, and
  the class has no property of that name to read or write.
\<close>

theorem unrecognized_kwarg_ignored:
  assumes "k \<notin> set (declared cd)"
  shows "ElementBase_init cd st (kw(k \<mapsto> v)) = ElementBase_init cd st kw
       \<and> TextElementBase_init cd content st (kw(k \<mapsto> v)) = TextElementBase_init cd content st kw
       \<and> spec_assignments cd (kw(k \<mapsto> v)) = spec_assignments cd kw
       \<and> get_property cd k e = None \<and> set_property cd k v e = None"
proof -
  from assms have no: "\<forall>b. (k, JSProperty b) \<notin> set cd"
    using undeclared_no_entry by blast
  have base: "ElementBase_init cd st (kw(k \<mapsto> v)) = ElementBase_init cd st kw"
    by (simp add: ElementBase_init_def init_properties_undeclared [OF no] split: sum.splits)
  have sa: "spec_assignments cd (kw(k \<mapsto> v)) = spec_assignments cd kw"
    using no by (induction cd kw rule: spec_assignments.induct) (auto split: option.splits)
  show ?thesis
    using base sa backing_undeclared [OF assms]
    by (simp add: TextElementBase_init_def get_property_def set_property_def)
qed

lemma div_declared: "declared (class_dict_of div_cls) = GLOBAL_ATTRIBUTES"
  by (simp add: div_dict declared_def GLOBAL_ATTRIBUTES_def)

text \<open>\<^verbatim>\<open>div(unrecognized="value")\<close> is the bare \<^verbatim>\<open>div\<close> element.\<close>

theorem unrecognized_kwarg_ignored_witness:
  "ElementBase_init (class_dict_of div_cls) PNone [''unrecognized'' \<mapsto> PStr ''value'']
     = Inr (Element ''div'' [] [] [] None)
   \<and> TextElementBase_init (class_dict_of div_cls) PNone PNone
       [''unrecognized'' \<mapsto> PStr ''value''] = Inr (Element ''div'' [] [] [] None)
   \<and> get_property (class_dict_of div_cls) ''unrecognized'' (Element ''div'' [] [] [] None) = None"
  using unrecognized_kwarg_ignored [of "''unrecognized''" "class_dict_of div_cls" PNone
          Map.empty "PStr ''value''" PNone "Element ''div'' [] [] [] None"]
  by (simp add: div_declared GLOBAL_ATTRIBUTES_def div_base_empty TextElementBase_init_def
        set_content_def)

section \<open>The dictionaries of the tag classes are well formed\<close>

lemma backings_memD: "b \<in> set (backings cd) \<Longrightarrow> \<exists>n. (n, JSProperty b) \<in> set cd"
  by (induction cd rule: backings.induct) auto

lemma distinct_backings:
  assumes "distinct (map fst cd)"
    and "\<And>n n' b. map_of cd n = Some (JSProperty b) \<Longrightarrow> map_of cd n' = Some (JSProperty b)
           \<Longrightarrow> n = n'"
  shows "distinct (backings cd)"
  using assms
proof (induction cd)
  case Nil
  then show ?case by simp
next
  case (Cons x rest)
  obtain m a where x: "x = (m, a)" by (cases x)
  from Cons.prems(1) x have d: "distinct (map fst rest)" and fresh: "m \<notin> fst ` set rest"
    by auto
  have inj_rest: "n = n'"
    if "map_of rest n = Some (JSProperty b)" "map_of rest n' = Some (JSProperty b)" for n n' b
  proof -
    from that have "n \<in> fst ` set rest" "n' \<in> fst ` set rest"
      by (auto dest: map_of_SomeD intro: rev_image_eqI)
    with fresh have "n \<noteq> m" "n' \<noteq> m" by auto
    with that x have "map_of (x # rest) n = Some (JSProperty b)"
      "map_of (x # rest) n' = Some (JSProperty b)" by simp_all
    then show ?thesis by (rule Cons.prems(2))
  qed
  have ih: "distinct (backings rest)"
    by (rule Cons.IH [OF d]) (rule inj_rest)
  show ?case
  proof (cases a)
    case (JSProperty c)
    have "c \<notin> set (backings rest)"
    proof
      assume "c \<in> set (backings rest)"
      then obtain n where n: "(n, JSProperty c) \<in> set rest" using backings_memD by blast
      with d have "map_of rest n = Some (JSProperty c)" by simp
      moreover from n fresh have "n \<noteq> m" by (auto intro: rev_image_eqI)
      ultimately have "map_of (x # rest) n = Some (JSProperty c)" using x by simp
      moreover have "map_of (x # rest) m = Some (JSProperty c)" using x JSProperty by simp
      ultimately have "n = m" by (rule Cons.prems(2))
      with \<open>n \<noteq> m\<close> show False by simp
    qed
    with ih x JSProperty show ?thesis by simp
  next
    case (StrConst t)
    with ih x show ?thesis by simp
  next
    case Function
    with ih x show ?thesis by simp
  qed
qed

lemma tag_class_bodies:
  "T \<in> set tag_classes \<Longrightarrow> T = script \<or> (\<exists>t. body T = [(''tag'', StrConst t)])"
  by (auto simp: tag_classes_def a_cls_def br_def button_def code_def div_cls_def img_def
        input_cls_def h1_def h2_def h3_def h4_def h5_def h6_def link_def p_cls_def
        pre_def style_def small_def strong_def)

lemma tag_classes_wellformed:
  assumes "T \<in> set tag_classes"
  shows "distinct (map fst (class_dict_of T))" and "distinct (backings (class_dict_of T))"
proof -
  from tag_class_bodies [OF assms] have db: "distinct (map fst (body T))"
    by (auto simp: script_def)
  then show d: "distinct (map fst (class_dict_of T))"
    by (simp add: class_dict_of_def distinct_add_js_properties)
  have body_props: "n = ''async_'' \<and> b = ''async'' \<and> T = script"
    if "map_of (body T) n = Some (JSProperty b)" for n b
    using tag_class_bodies [OF assms] that
    by (auto simp: script_def js_property_def split: if_splits)
  have fresh: "''async'' \<notin> set GLOBAL_ATTRIBUTES \<union> set (specific script)"
    by (simp add: GLOBAL_ATTRIBUTES_def script_def)
  show "distinct (backings (class_dict_of T))"
  proof (rule distinct_backings [OF d])
    fix n n' b
    assume "map_of (class_dict_of T) n = Some (JSProperty b)"
      and "map_of (class_dict_of T) n' = Some (JSProperty b)"
    then show "n = n'"
      using body_props fresh
      by (auto simp: class_dict_of_def map_of_add_js_properties split: if_splits)
  qed
qed

lemma set_styles_PDict:
  "set_styles (PDict items) e = Inr (fold (\<lambda>(key, v) el. style_setitem key v el) items e)"
  by (cases items) (simp_all add: set_styles_def)

lemma set_styles_dict:
  "distinct (map fst items) \<Longrightarrow>
     \<exists>e. set_styles (PDict items) (createElement t) = Inr e
        \<and> el_tag e = t \<and> el_style e = items \<and> el_attributes e = []
        \<and> el_children e = [] \<and> el_html e = None"
  using fold_update_distinct [of "[]" items]
  by (simp add: set_styles_PDict fold_style_style)

lemma set_styles_None:
  "set_styles PNone e = Inr e" "set_styles (PDict []) e = Inr e"
  by (simp_all add: set_styles_def)

lemma declared_backing:
  "n \<in> set (declared cd) \<Longrightarrow> distinct (map fst cd) \<Longrightarrow> \<exists>b. map_of cd n = Some (JSProperty b)"
  using set_declared [of cd] by auto

section \<open>The construction of ElementBase\<close>

lemma ElementBase_init_general:
  assumes tag: "class_tag cd = Inr t"
    and items: "distinct (map fst items)"
  shows "\<exists>e. ElementBase_init cd (PDict items) kw = Inr e
             \<and> el_tag e = t
             \<and> el_style e = items
             \<and> el_attributes e =
                 fold (\<lambda>(b, v) al. AList.update b v al) (spec_assignments cd kw) []
             \<and> el_children e = [] \<and> el_html e = None
             \<and> (distinct (map fst cd) \<and> distinct (backings cd) \<longrightarrow>
                  el_attributes e = spec_assignments cd kw
                  \<and> (\<forall>n \<in> set (declared cd).
                        get_property cd n e
                          = Some (case kw n of None \<Rightarrow> PNone | Some v \<Rightarrow> v)))"
proof -
  from set_styles_dict [OF items, of t] obtain s where
    s: "set_styles (PDict items) (createElement t) = Inr s"
      "el_tag s = t" "el_style s = items" "el_attributes s = []"
      "el_children s = []" "el_html s = None"
    by blast
  let ?e = "init_properties cd kw s"
  have run: "ElementBase_init cd (PDict items) kw = Inr ?e"
    using tag s(1) by (simp add: ElementBase_init_def)
  have attrs: "el_attributes ?e =
      fold (\<lambda>(b, v) al. AList.update b v al) (spec_assignments cd kw) []"
    using s(4) by (simp add: init_properties_attributes)
  have wf: "el_attributes ?e = spec_assignments cd kw
      \<and> (\<forall>n \<in> set (declared cd).
            get_property cd n ?e = Some (case kw n of None \<Rightarrow> PNone | Some v \<Rightarrow> v))"
    if d: "distinct (map fst cd)" and db: "distinct (backings cd)"
  proof -
    have "distinct (map fst ([] @ spec_assignments cd kw))"
      using distinct_spec_assignments [OF db] by simp
    from fold_update_distinct [OF this] attrs
    have eq: "el_attributes ?e = spec_assignments cd kw" by simp
    have "get_property cd n ?e = Some (case kw n of None \<Rightarrow> PNone | Some v \<Rightarrow> v)"
      if "n \<in> set (declared cd)" for n
    proof -
      from declared_backing [OF that d] obtain b where b: "map_of cd n = Some (JSProperty b)" ..
      from map_of_spec_assignments [OF d db b] have "map_of (spec_assignments cd kw) b = kw n" .
      with eq b show ?thesis
        by (simp add: get_property_def backing_def JSProperty_get_def)
    qed
    with eq show ?thesis by blast
  qed
  show ?thesis
    unfolding run using s(2,3,5,6) attrs wf by simp
qed

lemma class_tag_own: "map_of cd ''tag'' = Some (StrConst t) \<Longrightarrow> class_tag cd = Inr t"
  by (simp add: class_tag_def)

lemma tag_class_tag:
  assumes "T \<in> set tag_classes"
  shows "\<exists>t. map_of (body T) ''tag'' = Some (StrConst t)
           \<and> map_of (class_dict_of T) ''tag'' = Some (StrConst t)"
proof -
  have g: "''tag'' \<notin> set GLOBAL_ATTRIBUTES" by (simp add: GLOBAL_ATTRIBUTES_def)
  from assms have s: "''tag'' \<notin> set (specific T)"
    by (auto simp: tag_classes_def a_cls_def br_def button_def code_def div_cls_def img_def
          input_cls_def h1_def h2_def h3_def h4_def h5_def h6_def link_def p_cls_def
          pre_def style_def script_def small_def strong_def)
  from tag_class_bodies [OF assms] obtain t where "map_of (body T) ''tag'' = Some (StrConst t)"
    by (auto simp: script_def)
  with g s show ?thesis
    by (simp add: class_dict_of_def map_of_add_js_properties)
qed

text \<open>
  Claim C3. The constructor of \<^verbatim>\<open>ElementBase\<close>, on a class whose dictionary binds
  \<^verbatim>\<open>tag\<close> to the string \<open>t\<close> and with a style mapping \<open>items\<close> (a dict: distinct keys),
  returns one element with tag \<open>t\<close>, whose inline style holds the pairs of the mapping in
  its iteration order, and whose attributes result from the setter assignments
  \<open>spec_assignments\<close>, made in dictionary order: one per declared property that has a
  same-named keyword. No style mapping (\<^verbatim>\<open>None\<close>) is the empty mapping. Where the class
  dictionary has distinct keys and distinct backing attributes, the attributes are these
  assignments, and every declared property reads back the value of its keyword, or
  \<^verbatim>\<open>None\<close> without one. For every tag class \<open>T\<close> of the module all of this holds with
  the tag written in the class body: \<^verbatim>\<open>a\<close> for \<^verbatim>\<open>a\<close>, \<^verbatim>\<open>img\<close> for \<^verbatim>\<open>img\<close>,
  \<^verbatim>\<open>input\<close> for \<^verbatim>\<open>input_\<close>, and so on.
\<close>

theorem ElementBase_init_steps:
  assumes items: "distinct (map fst items)"
  shows "ElementBase_init cd PNone kw = ElementBase_init cd (PDict []) kw
       \<and> (map_of cd ''tag'' = Some (StrConst t) \<longrightarrow>
            (\<exists>e. ElementBase_init cd (PDict items) kw = Inr e
               \<and> el_tag e = t
               \<and> el_style e = items
               \<and> el_attributes e =
                   fold (\<lambda>(b, v) al. AList.update b v al) (spec_assignments cd kw) []
               \<and> el_children e = [] \<and> el_html e = None
               \<and> (distinct (map fst cd) \<and> distinct (backings cd) \<longrightarrow>
                    el_attributes e = spec_assignments cd kw
                    \<and> (\<forall>n \<in> set (declared cd).
                          get_property cd n e
                            = Some (case kw n of None \<Rightarrow> PNone | Some v \<Rightarrow> v)))))
       \<and> (\<forall>T \<in> set tag_classes.
            \<exists>t'. map_of (body T) ''tag'' = Some (StrConst t')
              \<and> (\<exists>e. ElementBase_init (class_dict_of T) (PDict items) kw = Inr e
                    \<and> el_tag e = t'
                    \<and> el_style e = items
                    \<and> el_attributes e = spec_assignments (class_dict_of T) kw
                    \<and> el_children e = [] \<and> el_html e = None
                    \<and> (\<forall>n \<in> set (declared (class_dict_of T)).
                          get_property (class_dict_of T) n e
                            = Some (case kw n of None \<Rightarrow> PNone | Some v \<Rightarrow> v))))"
proof -
  have none: "ElementBase_init cd PNone kw = ElementBase_init cd (PDict []) kw"
    by (simp add: ElementBase_init_def set_styles_None split: sum.splits)
  have own: "\<exists>e. ElementBase_init cd (PDict items) kw = Inr e
               \<and> el_tag e = t
               \<and> el_style e = items
               \<and> el_attributes e =
                   fold (\<lambda>(b, v) al. AList.update b v al) (spec_assignments cd kw) []
               \<and> el_children e = [] \<and> el_html e = None
               \<and> (distinct (map fst cd) \<and> distinct (backings cd) \<longrightarrow>
                    el_attributes e = spec_assignments cd kw
                    \<and> (\<forall>n \<in> set (declared cd).
                          get_property cd n e
                            = Some (case kw n of None \<Rightarrow> PNone | Some v \<Rightarrow> v)))"
    if "map_of cd ''tag'' = Some (StrConst t)"
    by (rule ElementBase_init_general [OF class_tag_own [OF that] items])
  have cls: "\<exists>t'. map_of (body T) ''tag'' = Some (StrConst t')
              \<and> (\<exists>e. ElementBase_init (class_dict_of T) (PDict items) kw = Inr e
                    \<and> el_tag e = t'
                    \<and> el_style e = items
                    \<and> el_attributes e = spec_assignments (class_dict_of T) kw
                    \<and> el_children e = [] \<and> el_html e = None
                    \<and> (\<forall>n \<in> set (declared (class_dict_of T)).
                          get_property (class_dict_of T) n e
                            = Some (case kw n of None \<Rightarrow> PNone | Some v \<Rightarrow> v)))"
    if T: "T \<in> set tag_classes" for T
  proof -
    from tag_class_tag [OF T] obtain t' where
      b: "map_of (body T) ''tag'' = Some (StrConst t')"
      and c: "map_of (class_dict_of T) ''tag'' = Some (StrConst t')"
      by blast
    from ElementBase_init_general [OF class_tag_own [OF c] items, of kw]
         tag_classes_wellformed [OF T] b
    show ?thesis by blast
  qed
  from none own cls show ?thesis by blast
qed

lemma div_wellformed:
  "class_tag (class_dict_of div_cls) = Inr ''div''"
  "distinct (map fst (class_dict_of div_cls))"
  "distinct (backings (class_dict_of div_cls))"
  by (simp_all add: div_dict GLOBAL_ATTRIBUTES_def class_tag_def)

lemma img_dict:
  "class_dict_of img =
     (''tag'', StrConst ''img'') # map (\<lambda>n. (n, JSProperty n))
       (GLOBAL_ATTRIBUTES @ [''alt'', ''crossorigin'', ''decoding'', ''fetchpriority'',
          ''height'', ''ismap'', ''loading'', ''referrerpolicy'', ''sizes'', ''src'',
          ''width''])"
  by (simp add: class_dict_of_def img_def add_js_properties_def GLOBAL_ATTRIBUTES_def
        setattr_cls_def js_property_def)

text \<open>
  \<^verbatim>\<open>img(id="x", src="a.png", style={"color": "red"})\<close> has the tag \<^verbatim>\<open>img\<close> of its
  class body, not the \<^verbatim>\<open>div\<close> of \<^verbatim>\<open>ElementBase\<close>; \<^verbatim>\<open>id\<close> is assigned before
  \<^verbatim>\<open>src\<close>, the order of the class dictionary.
  \<^verbatim>\<open>div(id="x", style={"color": "red"})\<close>: tag \<^verbatim>\<open>div\<close>, \<^verbatim>\<open>id\<close> reads back
  \<^verbatim>\<open>"x"\<close>, the inline style \<^verbatim>\<open>color\<close> reads back \<^verbatim>\<open>"red"\<close>.
\<close>

theorem ElementBase_init_steps_witness:
  "(\<exists>e. ElementBase_init (class_dict_of img) (PDict [(''color'', PStr ''red'')])
          [''src'' \<mapsto> PStr ''a.png'', ''id'' \<mapsto> PStr ''x''] = Inr e
      \<and> e = Element ''img'' [(''id'', PStr ''x''), (''src'', PStr ''a.png'')]
              [(''color'', PStr ''red'')] [] None
      \<and> el_tag e = ''img''
      \<and> get_property (class_dict_of img) ''src'' e = Some (PStr ''a.png'')
      \<and> get_property (class_dict_of img) ''alt'' e = Some PNone)
   \<and> (\<exists>e. ElementBase_init (class_dict_of div_cls) (PDict [(''color'', PStr ''red'')])
          [''id'' \<mapsto> PStr ''x''] = Inr e
      \<and> e = Element ''div'' [(''id'', PStr ''x'')] [(''color'', PStr ''red'')] [] None
      \<and> el_tag e = ''div''
      \<and> get_property (class_dict_of div_cls) ''id'' e = Some (PStr ''x'')
      \<and> get_property (class_dict_of div_cls) ''lang'' e = Some PNone
      \<and> style_getitem ''color'' e = Some (PStr ''red'')
      \<and> TextElementBase_init (class_dict_of div_cls) PNone (PDict [(''color'', PStr ''red'')])
            [''id'' \<mapsto> PStr ''x''] = Inr e)"
proof -
  have items: "distinct (map fst [(''color'', PStr ''red'')])" by simp
  have mem: "img \<in> set tag_classes" "div_cls \<in> set tag_classes"
    by (simp_all add: tag_classes_def)
  let ?ki = "[''src'' \<mapsto> PStr ''a.png'', ''id'' \<mapsto> PStr ''x'']"
  let ?kd = "[''id'' \<mapsto> PStr ''x'']"
  from ElementBase_init_steps [OF items, of _ ?ki] mem(1)
  obtain ti ei where i:
    "map_of (body img) ''tag'' = Some (StrConst ti)"
    "ElementBase_init (class_dict_of img) (PDict [(''color'', PStr ''red'')]) ?ki = Inr ei"
    "el_tag ei = ti" "el_style ei = [(''color'', PStr ''red'')]"
    "el_children ei = []" "el_html ei = None"
    "el_attributes ei = spec_assignments (class_dict_of img) ?ki"
    "\<forall>n \<in> set (declared (class_dict_of img)).
       get_property (class_dict_of img) n ei
         = Some (case ?ki n of None \<Rightarrow> PNone | Some v \<Rightarrow> v)"
    by blast
  from i(1) have ti: "ti = ''img''" by (simp add: img_def)
  have sai: "spec_assignments (class_dict_of img) ?ki
      = [(''id'', PStr ''x''), (''src'', PStr ''a.png'')]"
    by (simp add: img_dict GLOBAL_ATTRIBUTES_def)
  have eqi: "ei = Element ''img'' [(''id'', PStr ''x''), (''src'', PStr ''a.png'')]
      [(''color'', PStr ''red'')] [] None"
    using i(3-7) ti sai by (cases ei) simp
  have "''src'' \<in> set (declared (class_dict_of img))"
       "''alt'' \<in> set (declared (class_dict_of img))"
    by (simp_all add: img_dict declared_def GLOBAL_ATTRIBUTES_def)
  with i(8) have gi:
    "get_property (class_dict_of img) ''src'' ei = Some (PStr ''a.png'')"
    "get_property (class_dict_of img) ''alt'' ei = Some PNone"
    by auto
  from ElementBase_init_steps [OF items, of _ ?kd] mem(2)
  obtain td ed where d:
    "map_of (body div_cls) ''tag'' = Some (StrConst td)"
    "ElementBase_init (class_dict_of div_cls) (PDict [(''color'', PStr ''red'')]) ?kd = Inr ed"
    "el_tag ed = td" "el_style ed = [(''color'', PStr ''red'')]"
    "el_children ed = []" "el_html ed = None"
    "el_attributes ed = spec_assignments (class_dict_of div_cls) ?kd"
    "\<forall>n \<in> set (declared (class_dict_of div_cls)).
       get_property (class_dict_of div_cls) n ed
         = Some (case ?kd n of None \<Rightarrow> PNone | Some v \<Rightarrow> v)"
    by blast
  from d(1) have td: "td = ''div''" by (simp add: div_cls_def)
  have sad: "spec_assignments (class_dict_of div_cls) ?kd = [(''id'', PStr ''x'')]"
    by (simp add: div_dict GLOBAL_ATTRIBUTES_def)
  have eqd: "ed = Element ''div'' [(''id'', PStr ''x'')] [(''color'', PStr ''red'')] [] None"
    using d(3-7) td sad by (cases ed) simp
  have "''id'' \<in> set (declared (class_dict_of div_cls))"
       "''lang'' \<in> set (declared (class_dict_of div_cls))"
    by (simp_all add: div_declared GLOBAL_ATTRIBUTES_def)
  with d(8) have gd:
    "get_property (class_dict_of div_cls) ''id'' ed = Some (PStr ''x'')"
    "get_property (class_dict_of div_cls) ''lang'' ed = Some PNone"
    by auto
  have tinit: "TextElementBase_init (class_dict_of div_cls) PNone
      (PDict [(''color'', PStr ''red'')]) ?kd = Inr ed"
    using d(2) by (simp add: TextElementBase_init_def set_content_def)
  have img_part: "\<exists>e. ElementBase_init (class_dict_of img) (PDict [(''color'', PStr ''red'')])
          ?ki = Inr e
      \<and> e = Element ''img'' [(''id'', PStr ''x''), (''src'', PStr ''a.png'')]
              [(''color'', PStr ''red'')] [] None
      \<and> el_tag e = ''img''
      \<and> get_property (class_dict_of img) ''src'' e = Some (PStr ''a.png'')
      \<and> get_property (class_dict_of img) ''alt'' e = Some PNone"
    using i(2,3) ti eqi gi by blast
  have div_part: "\<exists>e. ElementBase_init (class_dict_of div_cls)
          (PDict [(''color'', PStr ''red'')]) ?kd = Inr e
      \<and> e = Element ''div'' [(''id'', PStr ''x'')] [(''color'', PStr ''red'')] [] None
      \<and> el_tag e = ''div''
      \<and> get_property (class_dict_of div_cls) ''id'' e = Some (PStr ''x'')
      \<and> get_property (class_dict_of div_cls) ''lang'' e = Some PNone
      \<and> style_getitem ''color'' e = Some (PStr ''red'')
      \<and> TextElementBase_init (class_dict_of div_cls) PNone (PDict [(''color'', PStr ''red'')])
            ?kd = Inr e"
    using d(2,3,4) td eqd gd tinit by simp
  from img_part div_part show ?thesis by blast
qed

section \<open>The composite element grid: lemmas and claims\<close>

lemma grid_init_properties: "init_properties grid kw e = e"
  by (simp add: grid_def)

lemma grid_class_tag: "class_tag grid = Inr ''div''"
  by (simp add: grid_def class_tag_def)

lemma grid_base:
  "TextElementBase_init grid content st kw =
     (case set_styles st (createElement ''div'') of
        Inl err \<Rightarrow> Inl err
      | Inr e \<Rightarrow> Inr (set_content content e))"
  by (simp add: TextElementBase_init_def ElementBase_init_def grid_class_tag grid_init_properties
           split: sum.splits)

lemma set_styles_sel:
  "set_styles st e = Inr e' \<Longrightarrow>
     el_tag e' = el_tag e \<and> el_attributes e' = el_attributes e
     \<and> el_children e' = el_children e \<and> el_html e' = el_html e"
  by (auto simp: set_styles_def split: if_splits pyval.splits)

lemma set_styles_falsy: "\<not> truthy st \<Longrightarrow> set_styles st e = Inr e"
  by (simp add: set_styles_def)

text \<open>
  Claim C5. \<^verbatim>\<open>grid(layout, content, gap, **kwargs)\<close> first runs the constructor of
  \<^verbatim>\<open>TextElementBase\<close> on a \<^verbatim>\<open>div\<close>; where that returns \<open>b\<close>, the grid is \<open>b\<close> with
  the same attributes, children and markup, the style \<^verbatim>\<open>display\<close> set to
  \<^verbatim>\<open>"grid"\<close> and \<^verbatim>\<open>grid-template-columns\<close> set to \<open>layout\<close> in every case, and the
  style \<^verbatim>\<open>gap\<close> set to \<open>gap\<close> when \<open>gap\<close> is not \<^verbatim>\<open>None\<close> and not touched
  otherwise. No other style entry changes. For \<^verbatim>\<open>grid(layout, content, gap)\<close>, with no
  style mapping among the keywords, the inline style is exactly \<^verbatim>\<open>display\<close>,
  \<^verbatim>\<open>grid-template-columns\<close> and, if and only if \<open>gap\<close> is not \<^verbatim>\<open>None\<close>, \<^verbatim>\<open>gap\<close>.
\<close>

theorem grid_init_styles:
  assumes "TextElementBase_init grid content (style_arg kw) (rest_kwargs kw) = Inr b"
  shows "\<exists>e. grid_init layout content gap kw = Inr e
           \<and> el_tag e = ''div''
           \<and> el_attributes e = el_attributes b
           \<and> el_children e = el_children b \<and> el_html e = el_html b
           \<and> style_getitem ''display'' e = Some (PStr ''grid'')
           \<and> style_getitem ''grid-template-columns'' e = Some layout
           \<and> style_getitem ''gap'' e = (if gap \<noteq> PNone then Some gap else style_getitem ''gap'' b)
           \<and> (\<forall>k. k \<notin> {''display'', ''grid-template-columns'', ''gap''} \<longrightarrow>
                 style_getitem k e = style_getitem k b)
           \<and> (kw ''style'' = None \<longrightarrow>
                 style_getitem ''gap'' e = (if gap \<noteq> PNone then Some gap else None)
                 \<and> el_style e =
                     [(''display'', PStr ''grid''), (''grid-template-columns'', layout)]
                     @ (if gap \<noteq> PNone then [(''gap'', gap)] else []))"
proof -
  from assms obtain s where s: "set_styles (style_arg kw) (createElement ''div'') = Inr s"
    and b: "b = set_content content s"
    by (auto simp: grid_base split: sum.splits)
  from set_styles_sel [OF s] b have tag: "el_tag b = ''div''" by simp
  have nostyle: "el_style b = []" if "kw ''style'' = None"
  proof -
    from that have "style_arg kw = PNone" by (simp add: style_arg_def)
    with s have "s = createElement ''div''" by (simp add: set_styles_def)
    with b show ?thesis by simp
  qed
  let ?e2 = "style_setitem ''grid-template-columns'' layout
               (style_setitem ''display'' (PStr ''grid'') b)"
  have run: "grid_init layout content gap kw
      = Inr (if gap \<noteq> PNone then style_setitem ''gap'' gap ?e2 else ?e2)"
    using assms by (simp add: grid_init_def Let_def)
  have exact: "el_style (if gap \<noteq> PNone then style_setitem ''gap'' gap ?e2 else ?e2)
      = [(''display'', PStr ''grid''), (''grid-template-columns'', layout)]
        @ (if gap \<noteq> PNone then [(''gap'', gap)] else [])"
    if "kw ''style'' = None"
    using nostyle [OF that] by simp
  show ?thesis
    unfolding run using tag nostyle exact by (auto simp: update_conv')
qed

text \<open>\<^verbatim>\<open>grid("1fr 1fr", None, "10px")\<close> and \<^verbatim>\<open>grid("1fr 1fr")\<close>.\<close>

theorem grid_init_styles_witness:
  "(\<exists>e. grid_init (PStr ''1fr 1fr'') PNone (PStr ''10px'') Map.empty = Inr e
        \<and> el_tag e = ''div''
        \<and> style_getitem ''display'' e = Some (PStr ''grid'')
        \<and> style_getitem ''grid-template-columns'' e = Some (PStr ''1fr 1fr'')
        \<and> style_getitem ''gap'' e = Some (PStr ''10px''))
   \<and> (\<exists>e. grid_init (PStr ''1fr 1fr'') PNone PNone Map.empty = Inr e
        \<and> style_getitem ''display'' e = Some (PStr ''grid'')
        \<and> style_getitem ''grid-template-columns'' e = Some (PStr ''1fr 1fr'')
        \<and> style_getitem ''gap'' e = None)"
proof -
  have b: "TextElementBase_init grid PNone (style_arg Map.empty) (rest_kwargs Map.empty)
             = Inr (Element ''div'' [] [] [] None)"
    by (simp add: grid_base style_arg_def set_styles_def set_content_def createElement_def)
  from grid_init_styles [OF b, of "PStr ''1fr 1fr''" "PStr ''10px''"]
       grid_init_styles [OF b, of "PStr ''1fr 1fr''" PNone]
  show ?thesis by simp blast
qed




section \<open>The registered property sets\<close>

lemma keys_fold_setattr:
  "fst ` set (fold (\<lambda>attr d. setattr_cls attr (js_property attr) d) attrs cd)
     = fst ` set cd \<union> set attrs"
  by (induction attrs arbitrary: cd) (auto simp: setattr_cls_def dom_update)

lemma keys_add_js_properties:
  "fst ` set (add_js_properties cd attrs) = fst ` set cd \<union> set GLOBAL_ATTRIBUTES \<union> set attrs"
  by (simp add: add_js_properties_def keys_fold_setattr)

lemma declared_class_dict_of:
  assumes "distinct (map fst (body T))"
  shows "set (declared (class_dict_of T))
           = set GLOBAL_ATTRIBUTES \<union> set (specific T) \<union> set (declared (body T))"
proof -
  have d: "distinct (map fst (class_dict_of T))"
    using assms by (simp add: class_dict_of_def distinct_add_js_properties)
  show ?thesis
    unfolding set_declared [OF d] set_declared [OF assms]
    by (auto simp: class_dict_of_def map_of_add_js_properties)
qed

lemma backing_class_dict_of:
  "backing (class_dict_of T) n
     = (if n \<in> set GLOBAL_ATTRIBUTES \<union> set (specific T) then Some n else backing (body T) n)"
  by (simp add: class_dict_of_def backing_add_js_properties)

lemma plain_class:
  assumes b: "body T = [(''tag'', StrConst t)]"
  shows "set (declared (class_dict_of T)) = set GLOBAL_ATTRIBUTES \<union> set (specific T)"
    and "\<forall>n \<in> set (declared (class_dict_of T)). backing (class_dict_of T) n = Some n"
    and "T \<noteq> script"
proof -
  have d: "distinct (map fst (body T))" and nb: "declared (body T) = []"
    using b by (simp_all add: declared_def)
  from declared_class_dict_of [OF d] nb
  show s: "set (declared (class_dict_of T)) = set GLOBAL_ATTRIBUTES \<union> set (specific T)"
    by simp
  show "\<forall>n \<in> set (declared (class_dict_of T)). backing (class_dict_of T) n = Some n"
    unfolding s by (simp add: backing_class_dict_of)
  show "T \<noteq> script" using b by (auto simp: script_def)
qed

lemma script_class:
  "set (declared (class_dict_of script))
     = set GLOBAL_ATTRIBUTES \<union> set (specific script) \<union> {''async_''}"
  "\<forall>n \<in> set (declared (class_dict_of script)).
     backing (class_dict_of script) n = Some (if n = ''async_'' then ''async'' else n)"
proof -
  have d: "distinct (map fst (body script))"
    and nb: "declared (body script) = [''async_'']"
    by (simp_all add: script_def declared_def js_property_def)
  from declared_class_dict_of [OF d] nb
  show s: "set (declared (class_dict_of script))
     = set GLOBAL_ATTRIBUTES \<union> set (specific script) \<union> {''async_''}"
    by simp
  have fresh: "''async_'' \<notin> set GLOBAL_ATTRIBUTES \<union> set (specific script)"
    by (simp add: GLOBAL_ATTRIBUTES_def script_def)
  have ba: "backing (body script) ''async_'' = Some ''async''"
    by (simp add: script_def backing_def js_property_def)
  show "\<forall>n \<in> set (declared (class_dict_of script)).
     backing (class_dict_of script) n = Some (if n = ''async_'' then ''async'' else n)"
    unfolding s using fresh ba by (auto simp: backing_class_dict_of)
qed

lemma global_only_class:
  assumes "body T = [(''tag'', StrConst t)]" "specific T = []"
  shows "declared (class_dict_of T) = GLOBAL_ATTRIBUTES"
  using assms
  by (simp add: class_dict_of_def add_js_properties_def GLOBAL_ATTRIBUTES_def
        setattr_cls_def js_property_def declared_def)

text \<open>
  Claim C2. For every tag class \<open>T\<close> of the module, registered with the specific
  attributes \<open>specific T\<close>, the declared property names are the global attributes together
  with the specific ones, and each declared property is backed by the attribute of its own
  name. The one exception is \<^verbatim>\<open>script\<close>, whose body adds the alias \<^verbatim>\<open>async_\<close>
  backed by \<^verbatim>\<open>async\<close>; \<^verbatim>\<open>input_\<close> is an alias of the class name only. The classes
  \<^verbatim>\<open>br\<close>, \<^verbatim>\<open>code\<close>, \<^verbatim>\<open>h1\<close> to \<^verbatim>\<open>h6\<close>, \<^verbatim>\<open>p\<close>, \<^verbatim>\<open>pre\<close>, \<^verbatim>\<open>small\<close> and
  \<^verbatim>\<open>strong\<close> declare the global attributes, in their order, and nothing else.
\<close>

theorem registered_properties:
  "(\<forall>T \<in> set tag_classes.
      set (declared (class_dict_of T))
        = set GLOBAL_ATTRIBUTES \<union> set (specific T) \<union> (if T = script then {''async_''} else {})
      \<and> (\<forall>n \<in> set (declared (class_dict_of T)).
            backing (class_dict_of T) n
              = Some (if T = script \<and> n = ''async_'' then ''async'' else n)))
   \<and> (\<forall>T \<in> set [br, code, h1, h2, h3, h4, h5, h6, p_cls, pre, small, strong].
        T \<in> set tag_classes \<and> specific T = []
        \<and> declared (class_dict_of T) = GLOBAL_ATTRIBUTES)"
proof -
  let ?P = "\<lambda>T. set (declared (class_dict_of T))
        = set GLOBAL_ATTRIBUTES \<union> set (specific T) \<union> (if T = script then {''async_''} else {})
      \<and> (\<forall>n \<in> set (declared (class_dict_of T)).
            backing (class_dict_of T) n
              = Some (if T = script \<and> n = ''async_'' then ''async'' else n))"
  have plain: "?P T" if "body T = [(''tag'', StrConst t)]" for T t
    using plain_class [OF that] by simp
  have scr: "?P script" using script_class by simp
  have all: "?P T" if "T \<in> set tag_classes" for T
  proof -
    from that have "T = script \<or> (\<exists>t. body T = [(''tag'', StrConst t)])"
      by (auto simp: tag_classes_def a_cls_def br_def button_def code_def div_cls_def img_def
            input_cls_def h1_def h2_def h3_def h4_def h5_def h6_def link_def p_cls_def
            pre_def style_def small_def strong_def)
    with plain scr show ?thesis by blast
  qed
  let ?Q = "\<lambda>T. T \<in> set tag_classes \<and> specific T = []
        \<and> declared (class_dict_of T) = GLOBAL_ATTRIBUTES"
  have glob: "?Q T" if "T \<in> set tag_classes" "body T = [(''tag'', StrConst t)]" "specific T = []"
    for T t
    using that global_only_class [OF that(2,3)] by simp
  have q: "?Q br" "?Q code" "?Q h1" "?Q h2" "?Q h3" "?Q h4" "?Q h5" "?Q h6" "?Q p_cls"
    "?Q pre" "?Q small" "?Q strong"
    by (rule glob; simp add: tag_classes_def br_def code_def h1_def h2_def h3_def h4_def
          h5_def h6_def p_cls_def pre_def small_def strong_def)+
  from all q show ?thesis by simp
qed


text \<open>On \<^verbatim>\<open>a\<close>, \<^verbatim>\<open>script\<close> and \<^verbatim>\<open>br\<close>.\<close>

theorem registered_properties_witness:
  "set (declared (class_dict_of a_cls))
     = set GLOBAL_ATTRIBUTES
       \<union> {''download'', ''href'', ''referrerpolicy'', ''rel'', ''target'', ''type''}
   \<and> backing (class_dict_of a_cls) ''href'' = Some ''href''
   \<and> set (declared (class_dict_of script))
     = set GLOBAL_ATTRIBUTES \<union> set (specific script) \<union> {''async_''}
   \<and> backing (class_dict_of script) ''async_'' = Some ''async''
   \<and> backing (class_dict_of script) ''src'' = Some ''src''
   \<and> declared (class_dict_of br) = GLOBAL_ATTRIBUTES"
proof -
  have m: "a_cls \<in> set tag_classes" "script \<in> set tag_classes"
    "br \<in> set [br, code, h1, h2, h3, h4, h5, h6, p_cls, pre, small, strong]"
    by (simp_all add: tag_classes_def)
  have ne: "a_cls \<noteq> script" by (simp add: a_cls_def script_def)
  from registered_properties m(1) ne
  have a: "set (declared (class_dict_of a_cls)) = set GLOBAL_ATTRIBUTES \<union> set (specific a_cls)"
    "\<forall>n \<in> set (declared (class_dict_of a_cls)). backing (class_dict_of a_cls) n = Some n"
    by auto
  from registered_properties m(2)
  have sc: "set (declared (class_dict_of script))
      = set GLOBAL_ATTRIBUTES \<union> set (specific script) \<union> {''async_''}"
    "\<forall>n \<in> set (declared (class_dict_of script)).
       backing (class_dict_of script) n = Some (if n = ''async_'' then ''async'' else n)"
    by auto
  from registered_properties m(3)
  have b: "declared (class_dict_of br) = GLOBAL_ATTRIBUTES" by blast
  have "''href'' \<in> set (declared (class_dict_of a_cls))"
    unfolding a(1) by (simp add: a_cls_def)
  with a(2) have href: "backing (class_dict_of a_cls) ''href'' = Some ''href''" by blast
  have "''async_'' \<in> set (declared (class_dict_of script))"
       "''src'' \<in> set (declared (class_dict_of script))"
    unfolding sc(1) by (simp_all add: script_def)
  with sc(2) have as: "backing (class_dict_of script) ''async_'' = Some ''async''"
    "backing (class_dict_of script) ''src'' = Some ''src''"
    by auto
  from a(1) href sc(1) as b show ?thesis by (simp add: a_cls_def)
qed

text \<open>
  Claim C7. Registration on a class dictionary keeps one entry per name, adds the global
  and the specific names to the names already there, and binds each of them to the
  property backed by its own name, whatever the name was bound to before. A specific
  attribute that is also global gets the declaration the global registration alone gives it.
  Names outside both lists keep their binding. A second registration on the same class
  overwrites in the same way, and repeating a registration changes nothing.
\<close>

theorem registration_last_write_wins:
  assumes "distinct (map fst cd)"
  shows "distinct (map fst (add_js_properties cd attrs))
       \<and> fst ` set (add_js_properties cd attrs)
           = fst ` set cd \<union> set GLOBAL_ATTRIBUTES \<union> set attrs
       \<and> (\<forall>n \<in> set GLOBAL_ATTRIBUTES \<union> set attrs.
             map_of (add_js_properties cd attrs) n = Some (JSProperty n))
       \<and> (\<forall>n \<in> set GLOBAL_ATTRIBUTES.
             map_of (add_js_properties cd attrs) n = map_of (add_js_properties cd []) n)
       \<and> (\<forall>n. n \<notin> set GLOBAL_ATTRIBUTES \<union> set attrs \<longrightarrow>
             map_of (add_js_properties cd attrs) n = map_of cd n)
       \<and> (\<forall>n \<in> set GLOBAL_ATTRIBUTES \<union> set attrs'.
             map_of (add_js_properties (add_js_properties cd attrs) attrs') n
               = Some (JSProperty n))
       \<and> (\<forall>n. n \<notin> set GLOBAL_ATTRIBUTES \<union> set attrs' \<longrightarrow>
             map_of (add_js_properties (add_js_properties cd attrs) attrs') n
               = map_of (add_js_properties cd attrs) n)
       \<and> add_js_properties (add_js_properties cd attrs) attrs = add_js_properties cd attrs"
  using assms
  by (simp add: distinct_add_js_properties keys_add_js_properties map_of_add_js_properties
        add_js_properties_idem)

text \<open>
  \<^verbatim>\<open>autofocus\<close> on \<^verbatim>\<open>button\<close> is global and specific: one entry, the global
  declaration. Registering \<^verbatim>\<open>script\<close> again with \<^verbatim>\<open>"async_"\<close> would overwrite the alias
  written in its body.
\<close>

theorem registration_last_write_wins_witness:
  "distinct (map fst (class_dict_of button))
   \<and> map_of (class_dict_of button) ''autofocus'' = Some (JSProperty ''autofocus'')
   \<and> map_of (class_dict_of button) ''autofocus''
       = map_of (add_js_properties (body button) []) ''autofocus''
   \<and> map_of (class_dict_of button) ''tag'' = Some (StrConst ''button'')
   \<and> map_of (class_dict_of script) ''async_'' = Some (JSProperty ''async'')
   \<and> map_of (add_js_properties (class_dict_of script) [''async_'']) ''async_''
       = Some (JSProperty ''async_'')"
proof -
  have d: "distinct (map fst (body button))" "distinct (map fst (body script))"
    by (simp_all add: button_def script_def)
  note b = registration_last_write_wins [OF d(1), of "specific button" "[]"]
  note s = registration_last_write_wins [OF d(2), of "specific script" "[''async_'']"]
  have in_b: "''autofocus'' \<in> set GLOBAL_ATTRIBUTES" "''autofocus'' \<in> set (specific button)"
    "''tag'' \<notin> set GLOBAL_ATTRIBUTES \<union> set (specific button)"
    "''async_'' \<notin> set GLOBAL_ATTRIBUTES \<union> set (specific script)"
    by (simp_all add: GLOBAL_ATTRIBUTES_def button_def script_def)
  have body: "map_of (body button) ''tag'' = Some (StrConst ''button'')"
    "map_of (body script) ''async_'' = Some (JSProperty ''async'')"
    by (simp_all add: button_def script_def js_property_def)
  from b have bd: "distinct (map fst (add_js_properties (body button) (specific button)))"
    by blast
  from b in_b(2) have ba:
    "map_of (add_js_properties (body button) (specific button)) ''autofocus''
       = Some (JSProperty ''autofocus'')"
    by blast
  from b in_b(1) have bg:
    "map_of (add_js_properties (body button) (specific button)) ''autofocus''
       = map_of (add_js_properties (body button) []) ''autofocus''"
    by blast
  from b in_b(3) have bt:
    "map_of (add_js_properties (body button) (specific button)) ''tag''
       = map_of (body button) ''tag''"
    by blast
  from s in_b(4) have sa:
    "map_of (add_js_properties (body script) (specific script)) ''async_''
       = map_of (body script) ''async_''"
    by blast
  from s have so:
    "map_of (add_js_properties (add_js_properties (body script) (specific script))
       [''async_'']) ''async_'' = Some (JSProperty ''async_'')"
    by simp
  from bd ba bg bt sa so body show ?thesis
    by (simp add: class_dict_of_def)
qed

section \<open>Reading back a declared property\<close>

lemma JSProperty_round_trip: "JSProperty_get b (JSProperty_set b v e) = v"
  by (simp add: JSProperty_get_def JSProperty_set_def update_conv')

lemma JSProperty_set_sel:
  "el_tag (JSProperty_set b v e) = el_tag e"
  "el_style (JSProperty_set b v e) = el_style e"
  "el_children (JSProperty_set b v e) = el_children e"
  "el_html (JSProperty_set b v e) = el_html e"
  by (simp_all add: JSProperty_set_def)

text \<open>
  Claim C8. For every declared property of a class, and every value, writing the value
  through the property and reading the property back returns the written value; the write
  touches nothing but the attributes. This rests on the descriptor contract of the spec
  (\<open>JSProperty_get\<close>, \<open>JSProperty_set\<close>).
\<close>

theorem declared_property_round_trip:
  assumes "n \<in> set (declared cd)" and "distinct (map fst cd)"
  shows "\<exists>e'. set_property cd n v e = Some e' \<and> get_property cd n e' = Some v
           \<and> el_tag e' = el_tag e \<and> el_style e' = el_style e
           \<and> el_children e' = el_children e \<and> el_html e' = el_html e"
proof -
  from declared_backing [OF assms] obtain b where "map_of cd n = Some (JSProperty b)" ..
  then have b: "backing cd n = Some b" by (simp add: backing_def)
  then show ?thesis
    by (simp add: set_property_def get_property_def JSProperty_round_trip JSProperty_set_sel)
qed

lemma input_cls_body: "distinct (map fst (body input_cls))" "declared (body input_cls) = []"
  by (simp_all add: input_cls_def declared_def)

text \<open>On \<^verbatim>\<open>input_\<close>: the boolean \<^verbatim>\<open>checked\<close> and the string \<^verbatim>\<open>placeholder\<close>.\<close>

theorem declared_property_round_trip_witness:
  "(\<exists>e'. set_property (class_dict_of input_cls) ''checked'' (PBool True)
            (createElement ''input'') = Some e'
         \<and> get_property (class_dict_of input_cls) ''checked'' e' = Some (PBool True))
   \<and> (\<exists>e'. set_property (class_dict_of input_cls) ''placeholder'' (PStr ''name'')
            (createElement ''input'') = Some e'
         \<and> get_property (class_dict_of input_cls) ''placeholder'' e' = Some (PStr ''name''))"
proof -
  have d: "distinct (map fst (class_dict_of input_cls))"
    using input_cls_body(1) by (simp add: class_dict_of_def distinct_add_js_properties)
  have m: "''checked'' \<in> set (declared (class_dict_of input_cls))"
    "''placeholder'' \<in> set (declared (class_dict_of input_cls))"
    unfolding declared_class_dict_of [OF input_cls_body(1)]
    by (simp_all add: input_cls_def)
  from declared_property_round_trip [OF m(1) d, of "PBool True" "createElement ''input''"]
       declared_property_round_trip [OF m(2) d, of "PStr ''name''" "createElement ''input''"]
  show ?thesis by blast
qed

section \<open>Reserved words among the attribute names\<close>

text \<open>
  Claim C6. \<^verbatim>\<open>script\<close> declares \<^verbatim>\<open>async\<close> under the alias \<^verbatim>\<open>async_\<close>, backed by
  \<^verbatim>\<open>async\<close>, and \<^verbatim>\<open>input_\<close> creates \<^verbatim>\<open>input\<close> elements. The attribute \<^verbatim>\<open>as\<close>
  of \<^verbatim>\<open>link\<close> is a reserved word too, and the module registers it under its own name:
  there is no alias \<^verbatim>\<open>as_\<close>, and \<^verbatim>\<open>link(as_="style")\<close> is \<^verbatim>\<open>link()\<close>.
\<close>

theorem link_as_declared_without_alias:
  "''as'' \<in> set python_keywords
   \<and> ''as'' \<in> set (declared (class_dict_of link))
   \<and> backing (class_dict_of link) ''as'' = Some ''as''
   \<and> ''as_'' \<notin> set (declared (class_dict_of link))
   \<and> TextElementBase_init (class_dict_of link) PNone PNone [''as_'' \<mapsto> PStr ''style'']
       = TextElementBase_init (class_dict_of link) PNone PNone Map.empty
   \<and> ''async'' \<in> set python_keywords
   \<and> ''async'' \<notin> set (declared (class_dict_of script))
   \<and> backing (class_dict_of script) ''async_'' = Some ''async''
   \<and> class_tag (class_dict_of input_cls) = Inr ''input''"
proof -
  have kw: "''as'' \<in> set python_keywords" "''async'' \<in> set python_keywords"
    by (simp_all add: python_keywords_def)
  have lb: "distinct (map fst (body link))" "declared (body link) = []"
    by (simp_all add: link_def declared_def)
  have ld: "set (declared (class_dict_of link)) = set GLOBAL_ATTRIBUTES \<union> set (specific link)"
    using declared_class_dict_of [OF lb(1)] lb(2) by simp
  have l1: "''as'' \<in> set (declared (class_dict_of link))"
    and l2: "''as_'' \<notin> set (declared (class_dict_of link))"
    unfolding ld by (simp_all add: link_def GLOBAL_ATTRIBUTES_def)
  have l3: "backing (class_dict_of link) ''as'' = Some ''as''"
    by (simp add: backing_class_dict_of link_def)
  from l2 have no: "\<forall>b. (''as_'', JSProperty b) \<notin> set (class_dict_of link)"
    using undeclared_no_entry by blast
  have l4: "TextElementBase_init (class_dict_of link) PNone PNone [''as_'' \<mapsto> PStr ''style'']
       = TextElementBase_init (class_dict_of link) PNone PNone Map.empty"
    by (simp add: TextElementBase_init_def ElementBase_init_def
          init_properties_undeclared [OF no] split: sum.splits)
  have s1: "''async'' \<notin> set (declared (class_dict_of script))"
    unfolding script_class(1) by (simp add: script_def GLOBAL_ATTRIBUTES_def)
  have "''async_'' \<in> set (declared (class_dict_of script))"
    unfolding script_class(1) by simp
  with script_class(2) have s2: "backing (class_dict_of script) ''async_'' = Some ''async''"
    by auto
  have i: "class_tag (class_dict_of input_cls) = Inr ''input''"
    by (simp add: class_tag_def class_dict_of_def map_of_add_js_properties
          GLOBAL_ATTRIBUTES_def input_cls_def)
  from kw l1 l2 l3 l4 s1 s2 i show ?thesis by simp
qed

end
